theory Spec2Isabelle
  imports Main "HOL-Library.Sublist"
begin

section \<open>JavaScript values\<close>

text \<open>
  The proxy handles values decoded from JSON bodies. A value is one of the JSON forms,
  or \<open>undefined\<close>, which reading a missing property yields, or a BigInt, which no JSON
  body decodes to but which \<open>JSON.stringify\<close> refuses. Numbers are modelled as
  integers (the program only tests them for truthiness and, for a \<open>length\<close>, for being
  positive). A string is a list of 8-bit characters, read as UTF-16 code units below 256.
  An object is the list of its own properties in the order in which they are enumerated,
  keys distinct.
\<close>

datatype js =
    JUndefined
  | JNull
  | JBool bool
  | JNum int
  | JBigInt int
  | JStr string
  | JArr "js list"
  | JObj "(string \<times> js) list"

text \<open>
  \<open>!!v\<close>: the falsy values are undefined, null, false, 0, 0n and the empty string.
\<close>

fun truthy :: "js \<Rightarrow> bool" where
  "truthy JUndefined = False"
| "truthy JNull = False"
| "truthy (JBool b) = b"
| "truthy (JNum n) = (n \<noteq> 0)"
| "truthy (JBigInt n) = (n \<noteq> 0)"
| "truthy (JStr s) = (s \<noteq> [])"
| "truthy (JArr xs) = True"
| "truthy (JObj kvs) = True"

text \<open>\<open>Array.isArray(v)\<close>.\<close>

fun isArray :: "js \<Rightarrow> bool" where
  "isArray (JArr xs) = True"
| "isArray v = False"

text \<open>Reading a property of \<open>null\<close> or \<open>undefined\<close> throws a TypeError.\<close>

fun nullish :: "js \<Rightarrow> bool" where
  "nullish JUndefined = True"
| "nullish JNull = True"
| "nullish v = False"

text \<open>
  \<open>v.k\<close> for a value that is not nullish, and for the property names the program reads
  (none of them is inherited from a prototype, \<open>length\<close> of arrays and strings apart).
  Every call below is guarded so that the receiver is not nullish.
\<close>

fun getProp :: "js \<Rightarrow> string \<Rightarrow> js" where
  "getProp (JObj kvs) k = (case map_of kvs k of Some v \<Rightarrow> v | None \<Rightarrow> JUndefined)"
| "getProp (JArr xs) k = (if k = ''length'' then JNum (int (length xs)) else JUndefined)"
| "getProp (JStr s) k = (if k = ''length'' then JNum (int (length s)) else JUndefined)"
| "getProp v k = JUndefined"

text \<open>\<open>a || b\<close>.\<close>

definition or_js :: "js \<Rightarrow> js \<Rightarrow> js" where
  "or_js a b = (if truthy a then a else b)"

text \<open>\<open>s.includes(sub)\<close>: \<open>sub\<close> occurs in \<open>s\<close> as a contiguous run.\<close>

fun includes_str :: "string \<Rightarrow> string \<Rightarrow> bool" where
  "includes_str [] sub = (sub = [])"
| "includes_str (c # cs) sub = (prefix sub (c # cs) \<or> includes_str cs sub)"

text \<open>The decimal numeral of a natural number, as a template literal prints it.\<close>

definition digitChar :: "nat \<Rightarrow> char" where
  "digitChar d = ''0123456789'' ! d"

fun decimal :: "nat \<Rightarrow> string" where
  "decimal n = (if n < 10 then [digitChar n] else decimal (n div 10) @ [digitChar (n mod 10)])"

declare decimal.simps [simp del]

section \<open>The upstream client: fathomRequest\<close>

text \<open>
  An \<open>Error\<close> object as the program reads it: \<open>status\<close>, \<open>statusCode\<close> (absent on errors
  that do not come from an HTTP response) and \<open>message\<close>.
\<close>

record js_error =
  err_status :: "nat option"
  err_statusCode :: "nat option"
  message :: string

definition plainError :: "string \<Rightarrow> js_error" where
  "plainError msg = \<lparr>err_status = None, err_statusCode = None, message = msg\<rparr>"

text \<open>
  What \<open>fetch\<close> answers: it rejects with an error (carrying a message), or resolves to a
  response, of which the program reads \<open>status\<close>, \<open>statusText\<close>, \<open>text()\<close> (\<open>None\<close> when
  reading the body throws) and \<open>json()\<close> (\<open>Inl m\<close> when the body is not JSON and the parser
  rejects with message \<open>m\<close>; the value decoded otherwise, which holds no \<open>undefined\<close> and
  no BigInt).
\<close>

record response =
  status :: nat
  statusText :: string
  body_text :: "string option"
  body_json :: "string + js"

datatype fetch_result = FetchRejected string | Responded response

text \<open>\<open>response.ok\<close>.\<close>

definition ok :: "response \<Rightarrow> bool" where
  "ok r = (200 \<le> status r \<and> status r \<le> 299)"

text \<open>The error thrown for a response that is not ok (source lines 35 to 48).\<close>

definition httpError :: "response \<Rightarrow> js_error" where
  "httpError r =
     (let errorBody = (case body_text r of None \<Rightarrow> [] | Some t \<Rightarrow> t)
      in \<lparr>err_status = Some (status r), err_statusCode = Some (status r),
          message = ''Fathom API error: '' @ decimal (status r) @ '' '' @ statusText r
                    @ ''. '' @ errorBody\<rparr>)"

text \<open>
  The \<open>catch\<close> of fathomRequest (lines 51 to 70): an error whose message is non-empty and
  does not mention \<open>Fathom API error\<close> is replaced by a new error with a longer message and
  no status; any other error is thrown again as it is.
\<close>

definition enhance :: "js_error \<Rightarrow> js_error" where
  "enhance e =
     (if message e \<noteq> [] \<and> \<not> includes_str (message e) ''Fathom API error''
      then plainError (''Failed to fetch from Fathom API: '' @ message e)
      else e)"

text \<open>\<open>!apiKey\<close>: the variable is unset or empty.\<close>

definition keyMissing :: "string option \<Rightarrow> bool" where
  "keyMissing apiKey = (case apiKey of None \<Rightarrow> True | Some k \<Rightarrow> k = [])"

text \<open>
  \<open>fathomRequest(endpoint)\<close>, given the value of \<open>FATHOM_API_KEY\<close> and what \<open>fetch\<close> answers
  to this request. Without a key no request is sent. The promise of \<open>response.json()\<close> is
  returned without \<open>await\<close>, so its rejection passes by the \<open>catch\<close>.
\<close>

definition fathomRequest :: "string option \<Rightarrow> fetch_result \<Rightarrow> js_error + js" where
  "fathomRequest apiKey answer =
     (if keyMissing apiKey then Inl (plainError ''FATHOM_API_KEY is not set'')
      else case answer of
        FetchRejected msg \<Rightarrow> Inl (enhance (plainError msg))
      | Responded r \<Rightarrow>
          if \<not> ok r then Inl (enhance (httpError r))
          else (case body_json r of
                  Inl msg \<Rightarrow> Inl (plainError msg)
                | Inr v \<Rightarrow> Inr v))"

section \<open>GET /api/meetings/:id/transcript\<close>

text \<open>
  \<open>parseInt(s)\<close> with no radix: white space is skipped, then an optional sign, then an
  optional \<open>0x\<close> or \<open>0X\<close> (which selects radix 16), then the longest run of digits of the
  radix is read. \<open>None\<close> is NaN: there is no digit to read. Otherwise the result is a
  Number, that is a double: the integer read, rounded to 53 significant bits, ties to the
  even neighbour, and infinite from \<open>2 ^ 1024\<close> on (this is what V8 computes; the language
  lets an implementation be less exact beyond 20 decimal digits). Integers up to
  \<open>2 ^ 53\<close> are kept as they are.
\<close>

datatype number = Finite int | PlusInfinity | MinusInfinity

fun bitLength :: "nat \<Rightarrow> nat" where
  "bitLength n = (if n = 0 then 0 else Suc (bitLength (n div 2)))"

declare bitLength.simps [simp del]

text \<open>The double nearest to a natural number, \<open>None\<close> when that is Infinity.\<close>

definition roundToDouble :: "nat \<Rightarrow> nat option" where
  "roundToDouble n =
     (if n < 2 ^ 53 then Some n
      else (let e = bitLength n - 53;
                q = n div 2 ^ e;
                r = n mod 2 ^ e;
                q' = (if 2 ^ e < 2 * r \<or> (2 * r = 2 ^ e \<and> odd q) then q + 1 else q);
                v = q' * 2 ^ e
            in if v < 2 ^ 1024 then Some v else None))"

definition isStrWhiteSpace :: "char \<Rightarrow> bool" where
  "isStrWhiteSpace c = (c \<in> set [CHR 0x09, CHR 0x0A, CHR 0x0B, CHR 0x0C, CHR 0x0D, CHR 0x20, CHR 0xA0])"

definition digitVal :: "char \<Rightarrow> nat option" where
  "digitVal c =
     (let n = (of_char c :: nat)
      in if 48 \<le> n \<and> n \<le> 57 then Some (n - 48)
         else if 97 \<le> n \<and> n \<le> 122 then Some (n - 87)
         else if 65 \<le> n \<and> n \<le> 90 then Some (n - 55)
         else None)"

definition radixDigit :: "nat \<Rightarrow> char \<Rightarrow> nat option" where
  "radixDigit R c = (case digitVal c of None \<Rightarrow> None | Some d \<Rightarrow> if d < R then Some d else None)"

definition digitsValue :: "nat \<Rightarrow> string \<Rightarrow> nat" where
  "digitsValue R Z = foldl (\<lambda>a c. a * R + (case radixDigit R c of None \<Rightarrow> 0 | Some d \<Rightarrow> d)) 0 Z"

definition parseInt :: "string \<Rightarrow> number option" where
  "parseInt s =
     (let S = dropWhile isStrWhiteSpace s;
          negative = (take 1 S = ''-'');
          S1 = (if take 1 S = ''+'' \<or> take 1 S = ''-'' then drop 1 S else S);
          hex = (take 2 S1 = ''0x'' \<or> take 2 S1 = ''0X'');
          R = (if hex then 16 else 10);
          S2 = (if hex then drop 2 S1 else S1);
          Z = takeWhile (\<lambda>c. radixDigit R c \<noteq> None) S2
      in if Z = [] then None
         else (case roundToDouble (digitsValue R Z) of
                 None \<Rightarrow> Some (if negative then MinusInfinity else PlusInfinity)
               | Some v \<Rightarrow> Some (Finite (if negative then - int v else int v))))"

text \<open>
  The effects of a handler that the claims speak of: a page request to the upstream (with
  the value set as the \<open>cursor\<close> query parameter, if any), a transcript request (with
  the Number that the template literal of line 307 prints into the path: an integer below
  \<open>10 ^ 21\<close> in decimal digits, a larger one in exponent form, or \<open>Infinity\<close>), a wait in
  milliseconds, and the log line written when the retries for rate limiting are used up.
\<close>

datatype event =
    Request "js option"
  | TranscriptRequest number
  | Wait nat
  | MaxRetriesLogged

text \<open>What a handler answers: the HTTP status and the JSON body.\<close>

record reply =
  code :: nat
  body :: js

text \<open>
  Extraction of the transcript from the upstream answer (lines 310 to 320). The first
  property read throws on a \<open>null\<close> answer.
\<close>

definition extractTranscript :: "js \<Rightarrow> js_error + js" where
  "extractTranscript response =
     (if nullish response
      then Inl (plainError ''Cannot read properties of null (reading 'transcript')'')
      else if truthy (getProp response ''transcript'') then Inr (getProp response ''transcript'')
      else if truthy (getProp response ''data'') \<and> truthy (getProp (getProp response ''data'') ''transcript'')
        then Inr (getProp (getProp response ''data'') ''transcript'')
      else if truthy (getProp response ''result'') \<and> truthy (getProp (getProp response ''result'') ''transcript'')
        then Inr (getProp (getProp response ''result'') ''transcript'')
      else Inr response)"

definition notFound :: "string \<Rightarrow> reply" where
  "notFound meetingId =
     \<lparr>code = 404, body = JObj [(''error'', JStr ''Transcript not found''),
                              (''recording_id'', JStr meetingId)]\<rparr>"

text \<open>
  The handler (lines 290 to 351), given the route parameter and what \<open>fetch\<close> would answer.
  It returns the reply and the upstream requests made.
\<close>

definition transcriptHandler :: "string option \<Rightarrow> string \<Rightarrow> fetch_result \<Rightarrow> reply \<times> event list" where
  "transcriptHandler apiKey meetingId answer =
     (case parseInt meetingId of
        None \<Rightarrow>
          (\<lparr>code = 400, body = JObj [(''error'', JStr ''Invalid meeting ID''),
                                   (''recording_id'', JStr meetingId)]\<rparr>, [])
      | Some recordingId \<Rightarrow>
          (let sent = (if keyMissing apiKey then [] else [TranscriptRequest recordingId]);
               fetched = (case fathomRequest apiKey answer of
                            Inl e \<Rightarrow> Inl e
                          | Inr response \<Rightarrow> extractTranscript response)
           in case fetched of
                Inr transcript \<Rightarrow>
                  if \<not> truthy transcript then (notFound meetingId, sent)
                  else (\<lparr>code = 200, body = JObj [(''transcript'', transcript)]\<rparr>, sent)
              | Inl error \<Rightarrow>
                  if err_status error = Some 404 \<or> err_statusCode error = Some 404
                  then (notFound meetingId, sent)
                  else (\<lparr>code = 500, body = JObj [(''error'', JStr ''Failed to fetch transcript''),
                                                (''message'', JStr (message error))]\<rparr>, sent)))"

section \<open>The cache\<close>

text \<open>The two module variables \<open>meetingsCache\<close> and \<open>cacheTimestamp\<close>; \<open>None\<close> is \<open>null\<close>.\<close>

record cache =
  meetingsCache :: "js list option"
  cacheTimestamp :: "int option"

definition CACHE_TTL :: int where
  "CACHE_TTL = 5 * 60 * 1000"

text \<open>
  The test of line 238, \<open>meetingsCache && cacheTimestamp && (now - cacheTimestamp) < CACHE_TTL\<close>:
  an array is truthy even when empty, a timestamp is truthy unless it is 0.
\<close>

definition cacheHit :: "cache \<Rightarrow> int \<Rightarrow> bool" where
  "cacheHit c now =
     (meetingsCache c \<noteq> None \<and>
      (case cacheTimestamp c of None \<Rightarrow> False | Some t \<Rightarrow> t \<noteq> 0 \<and> now - t < CACHE_TTL))"

text \<open>The read of lines 238 to 241: the cached records on a hit, \<open>None\<close> on a miss.\<close>

definition cacheGet :: "cache \<Rightarrow> int \<Rightarrow> js list option" where
  "cacheGet c now = (if cacheHit c now then meetingsCache c else None)"

text \<open>The write of lines 249 and 250.\<close>

definition cacheSet :: "js list \<Rightarrow> int \<Rightarrow> cache" where
  "cacheSet records now = \<lparr>meetingsCache = Some records, cacheTimestamp = Some now\<rparr>"

text \<open>POST /api/cache/clear (lines 430 to 434).\<close>

definition cacheClear :: cache where
  "cacheClear = \<lparr>meetingsCache = None, cacheTimestamp = None\<rparr>"

section \<open>Draining the pages: fetchAllMeetings\<close>

text \<open>
  How a run of the model stops short of a value: the program throws, or the run leaves
  what is modelled (a comparison that needs JavaScript's conversion of a string or an
  object to a number), or the list of scripted upstream answers is used up while the
  program still asks.
\<close>

datatype failure = Thrown js_error | OutsideModel | ScriptExhausted

text \<open>
  Extraction of the items (lines 135 to 144). \<open>Array.isArray\<close> accepts any value; the
  read of \<open>response.items\<close> that follows throws on \<open>null\<close>.
\<close>

definition extractItems :: "js \<Rightarrow> js_error + js" where
  "extractItems response =
     (if isArray response then Inr response
      else if nullish response
        then Inl (plainError ''Cannot read properties of null (reading 'items')'')
      else if truthy (getProp response ''items'') then Inr (getProp response ''items'')
      else if truthy (getProp response ''data'') \<and> isArray (getProp response ''data'')
        then Inr (getProp response ''data'')
      else if truthy (getProp response ''data'') \<and> truthy (getProp (getProp response ''data'') ''items'')
        then Inr (getProp (getProp response ''data'') ''items'')
      else Inr (JArr []))"

text \<open>
  \<open>items.length > 0\<close> for a truthy \<open>items\<close>. A number or a BigInt is compared, \<open>true\<close>
  counts as 1, \<open>null\<close> as 0, \<open>undefined\<close> as NaN; other values of \<open>length\<close> (in an object
  that has such a property) are outside the model.
\<close>

definition lengthPositive :: "js \<Rightarrow> failure + bool" where
  "lengthPositive items =
     (case getProp items ''length'' of
        JNum n \<Rightarrow> Inr (0 < n)
      | JBool b \<Rightarrow> Inr b
      | JNull \<Rightarrow> Inr False
      | JUndefined \<Rightarrow> Inr False
      | JBigInt n \<Rightarrow> Inr (0 < n)
      | JStr s \<Rightarrow> Inl OutsideModel
      | JArr xs \<Rightarrow> Inl OutsideModel
      | JObj kvs \<Rightarrow> Inl OutsideModel)"

text \<open>
  \<open>...items\<close> as the arguments of a call: the elements of an array, the characters of a
  string; anything else is not iterable and the call throws a TypeError.
\<close>

definition spread :: "js \<Rightarrow> failure + js list" where
  "spread items =
     (case items of
        JArr xs \<Rightarrow> Inr xs
      | JStr s \<Rightarrow> Inr (map (\<lambda>c. JStr [c]) s)
      | JUndefined \<Rightarrow> Inl (Thrown (plainError ''Spread syntax requires ...iterable[Symbol.iterator] to be a function''))
      | JNull \<Rightarrow> Inl (Thrown (plainError ''Spread syntax requires ...iterable[Symbol.iterator] to be a function''))
      | JBool b \<Rightarrow> Inl (Thrown (plainError ''Spread syntax requires ...iterable[Symbol.iterator] to be a function''))
      | JNum n \<Rightarrow> Inl (Thrown (plainError ''Spread syntax requires ...iterable[Symbol.iterator] to be a function''))
      | JBigInt n \<Rightarrow> Inl (Thrown (plainError ''Spread syntax requires ...iterable[Symbol.iterator] to be a function''))
      | JObj kvs \<Rightarrow> Inl (Thrown (plainError ''Spread syntax requires ...iterable[Symbol.iterator] to be a function'')))"

text \<open>Lines 146 to 149: the values that \<open>allMeetings.push(...items)\<close> appends, if it runs.\<close>

definition pushed :: "js \<Rightarrow> failure + js list" where
  "pushed items =
     (if \<not> truthy items then Inr []
      else case lengthPositive items of
             Inl f \<Rightarrow> Inl f
           | Inr positive \<Rightarrow> if positive then spread items else Inr [])"

text \<open>
  Line 152: \<open>response.next_cursor || response.cursor || response.pagination?.next_cursor || null\<close>,
  for a response that is not nullish (extractItems has thrown otherwise).
\<close>

definition extractCursor :: "js \<Rightarrow> js" where
  "extractCursor response =
     or_js (or_js (or_js (getProp response ''next_cursor'') (getProp response ''cursor''))
                  (if nullish (getProp response ''pagination'') then JUndefined
                   else getProp (getProp response ''pagination'') ''next_cursor''))
           JNull"

text \<open>
  The \<open>try\<close> block of the loop (lines 127 to 161) up to the cursor: the values appended to
  \<open>allMeetings\<close> and the cursor extracted, or what is thrown.
\<close>

definition tryBody :: "string option \<Rightarrow> fetch_result \<Rightarrow> failure + (js list \<times> js)" where
  "tryBody apiKey answer =
     (case fathomRequest apiKey answer of
        Inl e \<Rightarrow> Inl (Thrown e)
      | Inr response \<Rightarrow>
          (case extractItems response of
             Inl e \<Rightarrow> Inl (Thrown e)
           | Inr items \<Rightarrow>
               (case pushed items of
                  Inl f \<Rightarrow> Inl f
                | Inr new \<Rightarrow> Inr (new, extractCursor response))))"

text \<open>The test of line 164.\<close>

definition isRateLimit :: "js_error \<Rightarrow> bool" where
  "isRateLimit error =
     (err_status error = Some 429 \<or> err_statusCode error = Some 429
      \<or> includes_str (message error) ''429'')"

definition maxRetries :: nat where
  "maxRetries = 5"

text \<open>The request event of one iteration: no request is sent without a key.\<close>

definition sent :: "string option \<Rightarrow> js option \<Rightarrow> event list" where
  "sent apiKey cursorParam = (if keyMissing apiKey then [] else [Request cursorParam])"

text \<open>
  The variables of the loop: \<open>allMeetings\<close>, \<open>retryCount\<close> and the \<open>cursor\<close> parameter of
  the query, \<open>None\<close> until line 156 sets it (URLSearchParams stores the value as a string).
  The filter parameters never change and are left out.
\<close>

record loop_state =
  allMeetings :: "js list"
  retryCount :: nat
  cursorParam :: "js option"

text \<open>
  How one pass through the body of \<open>while (hasMore)\<close> ends: the loop goes on (\<open>hasMore\<close> is
  true, or \<open>continue\<close> after a rate limit), the function returns a list (\<open>hasMore\<close> is
  false, or \<open>break\<close>), or it fails.
\<close>

datatype step = Continue loop_state | Return "js list" | Fail failure

text \<open>One pass through the loop body (lines 127 to 178), given the answer to its request.\<close>

definition iteration :: "string option \<Rightarrow> fetch_result \<Rightarrow> loop_state \<Rightarrow> step \<times> event list" where
  "iteration apiKey answer st =
     (case tryBody apiKey answer of
        Inr (new, cursor) \<Rightarrow>
          if \<not> nullish cursor
          then (Continue \<lparr>allMeetings = allMeetings st @ new, retryCount = 0,
                           cursorParam = Some cursor\<rparr>,
                sent apiKey (cursorParam st) @ [Wait 500])
          else (Return (allMeetings st @ new), sent apiKey (cursorParam st))
      | Inl (Thrown error) \<Rightarrow>
          if isRateLimit error
          then (if retryCount st + 1 \<le> maxRetries
                then (Continue (st\<lparr>retryCount := retryCount st + 1\<rparr>),
                      sent apiKey (cursorParam st) @ [Wait (2 ^ (retryCount st + 1) * 1000)])
                else (Return (allMeetings st), sent apiKey (cursorParam st) @ [MaxRetriesLogged]))
          else (Fail (Thrown error), sent apiKey (cursorParam st))
      | Inl OutsideModel \<Rightarrow> (Fail OutsideModel, sent apiKey (cursorParam st))
      | Inl ScriptExhausted \<Rightarrow> (Fail ScriptExhausted, sent apiKey (cursorParam st)))"

definition after :: "event list \<Rightarrow> 'a \<times> event list \<Rightarrow> 'a \<times> event list" where
  "after evs r = (fst r, evs @ snd r)"

text \<open>
  The \<open>while (hasMore)\<close> loop (lines 126 to 179). Each pass sends one request, so it takes
  the next scripted answer. The result is the list returned or the failure, with the
  events in order.
\<close>

fun fetchLoop ::
  "string option \<Rightarrow> fetch_result list \<Rightarrow> loop_state \<Rightarrow> (failure + js list) \<times> event list" where
  "fetchLoop apiKey [] st =
     (if keyMissing apiKey then (Inl (Thrown (plainError ''FATHOM_API_KEY is not set'')), [])
      else (Inl ScriptExhausted, [Request (cursorParam st)]))"
| "fetchLoop apiKey (answer # script) st =
     (case iteration apiKey answer st of
        (Continue st', evs) \<Rightarrow> after evs (fetchLoop apiKey script st')
      | (Return meetings, evs) \<Rightarrow> (Inr meetings, evs)
      | (Fail f, evs) \<Rightarrow> (Inl f, evs))"

text \<open>
  \<open>fetchAllMeetings()\<close> (lines 82 to 194): the loop from the empty list, no retry and no
  cursor. The outer \<open>catch\<close> logs and throws again.
\<close>

definition initial :: loop_state where
  "initial = \<lparr>allMeetings = [], retryCount = 0, cursorParam = None\<rparr>"

definition fetchAllMeetings :: "string option \<Rightarrow> fetch_result list \<Rightarrow> (failure + js list) \<times> event list" where
  "fetchAllMeetings apiKey script = fetchLoop apiKey script initial"

text \<open>
  The state of the loop after the answers \<open>pre\<close>, with the events so far, when every pass
  over them went on; \<open>None\<close> when the function has returned or failed before their end.
\<close>

fun iterations ::
  "string option \<Rightarrow> fetch_result list \<Rightarrow> loop_state \<Rightarrow> (loop_state \<times> event list) option" where
  "iterations apiKey [] st = Some (st, [])"
| "iterations apiKey (answer # pre) st =
     (case iteration apiKey answer st of
        (Continue st', evs) \<Rightarrow>
          (case iterations apiKey pre st' of
             Some (st'', evs') \<Rightarrow> Some (st'', evs @ evs')
           | None \<Rightarrow> None)
      | (Return meetings, evs) \<Rightarrow> None
      | (Fail f, evs) \<Rightarrow> None)"

text \<open>
  What an answer is as a page: the items its pass appends (none when the pass throws),
  and whether it is a page that carries a cursor, or a page that carries none.
\<close>

definition pageItems :: "string option \<Rightarrow> fetch_result \<Rightarrow> js list" where
  "pageItems apiKey answer = (case tryBody apiKey answer of Inr (new, cursor) \<Rightarrow> new | Inl f \<Rightarrow> [])"

definition carriesCursor :: "string option \<Rightarrow> fetch_result \<Rightarrow> bool" where
  "carriesCursor apiKey answer =
     (case tryBody apiKey answer of Inr (new, cursor) \<Rightarrow> \<not> nullish cursor | Inl f \<Rightarrow> False)"

definition carriesNoCursor :: "string option \<Rightarrow> fetch_result \<Rightarrow> bool" where
  "carriesNoCursor apiKey answer =
     (case tryBody apiKey answer of Inr (new, cursor) \<Rightarrow> nullish cursor | Inl f \<Rightarrow> False)"

definition pageCursor :: "string option \<Rightarrow> fetch_result \<Rightarrow> js option" where
  "pageCursor apiKey answer =
     (case tryBody apiKey answer of Inr (new, cursor) \<Rightarrow> Some cursor | Inl f \<Rightarrow> None)"



text \<open>An answer whose pass ends in the rate-limit branch of the \<open>catch\<close>.\<close>

definition rateLimited :: "string option \<Rightarrow> fetch_result \<Rightarrow> bool" where
  "rateLimited apiKey answer =
     (case tryBody apiKey answer of
        Inr p \<Rightarrow> False
      | Inl (Thrown error) \<Rightarrow> isRateLimit error
      | Inl OutsideModel \<Rightarrow> False
      | Inl ScriptExhausted \<Rightarrow> False)"

text \<open>An answer with the given HTTP status.\<close>

definition respondsWith :: "nat \<Rightarrow> fetch_result \<Rightarrow> bool" where
  "respondsWith n answer = (case answer of Responded r \<Rightarrow> status r = n | FetchRejected msg \<Rightarrow> False)"

subsection \<open>The extraction rules as priority lists\<close>

text \<open>
  The specification words the two extractions as ordered lists of strategies, the first
  that matches being taken. These definitions follow those words, to be compared with
  \<open>extractItems\<close> and \<open>extractCursor\<close> above. A strategy matches when the value it looks at
  is truthy (a list is always truthy).
\<close>

fun firstMatch :: "('a \<Rightarrow> 'b option) list \<Rightarrow> 'a \<Rightarrow> 'b option" where
  "firstMatch [] r = None"
| "firstMatch (f # fs) r = (case f r of Some v \<Rightarrow> Some v | None \<Rightarrow> firstMatch fs r)"

definition bareList :: "js \<Rightarrow> js option" where
  "bareList r = (if isArray r then Some r else None)"

definition itemsKey :: "js \<Rightarrow> js option" where
  "itemsKey r = (if truthy (getProp r ''items'') then Some (getProp r ''items'') else None)"

definition dataAsList :: "js \<Rightarrow> js option" where
  "dataAsList r = (if isArray (getProp r ''data'') then Some (getProp r ''data'') else None)"

definition dataItems :: "js \<Rightarrow> js option" where
  "dataItems r =
     (if truthy (getProp r ''data'') \<and> truthy (getProp (getProp r ''data'') ''items'')
      then Some (getProp (getProp r ''data'') ''items'') else None)"

definition itemShapes :: "(js \<Rightarrow> js option) list" where
  "itemShapes = [bareList, itemsKey, dataAsList, dataItems]"

definition itemsByPriority :: "js \<Rightarrow> js" where
  "itemsByPriority r = (case firstMatch itemShapes r of Some items \<Rightarrow> items | None \<Rightarrow> JArr [])"

definition cursorFields :: "js \<Rightarrow> js list" where
  "cursorFields r =
     [getProp r ''next_cursor'', getProp r ''cursor'',
      (if nullish (getProp r ''pagination'') then JUndefined
       else getProp (getProp r ''pagination'') ''next_cursor'')]"

definition cursorByPriority :: "js \<Rightarrow> js" where
  "cursorByPriority r = (case find truthy (cursorFields r) of Some c \<Rightarrow> c | None \<Rightarrow> JNull)"

section \<open>Normalisation and GET /api/meetings\<close>

text \<open>The record built in the \<open>catch\<close> of serializeMeeting (lines 212 to 226).\<close>

definition fallbackFields :: "js \<Rightarrow> js" where
  "fallbackFields meeting =
     JObj [(''recording_id'', or_js (getProp meeting ''recording_id'') (getProp meeting ''id'')),
           (''title'', or_js (getProp meeting ''title'') (getProp meeting ''meeting_title'')),
           (''meeting_title'', or_js (getProp meeting ''meeting_title'') (getProp meeting ''title'')),
           (''url'', getProp meeting ''url''),
           (''share_url'', getProp meeting ''share_url''),
           (''scheduled_start_time'', getProp meeting ''scheduled_start_time''),
           (''scheduled_end_time'', getProp meeting ''scheduled_end_time''),
           (''calendar_invitees_domains_type'', getProp meeting ''calendar_invitees_domains_type''),
           (''default_summary'', getProp meeting ''default_summary''),
           (''calendar_invitees'', getProp meeting ''calendar_invitees''),
           (''created_at'', getProp meeting ''created_at''),
           (''recording_start_time'', getProp meeting ''recording_start_time''),
           (''recording_end_time'', getProp meeting ''recording_end_time'')]"

text \<open>\<open>typeof v === 'object'\<close> for a truthy value.\<close>

fun typeofObject :: "js \<Rightarrow> bool" where
  "typeofObject (JObj kvs) = True"
| "typeofObject (JArr xs) = True"
| "typeofObject v = False"





text \<open>
  \<open>serializeMeeting(meeting)\<close> (lines 199 to 228). The parameter \<open>stringifyParse\<close> is the
  runtime's \<open>JSON.parse(JSON.stringify(meeting))\<close>, \<open>None\<close> when it throws; \<open>jsonRoundTrip\<close>
  is that function on the values of the model.
\<close>

definition serializeMeeting :: "(js \<Rightarrow> js option) \<Rightarrow> js \<Rightarrow> js" where
  "serializeMeeting stringifyParse meeting =
     (if \<not> truthy meeting then JNull
      else if typeofObject meeting \<and> \<not> truthy (getProp meeting ''toJSON'')
              \<and> \<not> truthy (getProp meeting ''to_dict'')
        then meeting
      else case stringifyParse meeting of
             Some v \<Rightarrow> v
           | None \<Rightarrow> fallbackFields meeting)"

text \<open>\<open>error.status || error.statusCode || 500\<close> (line 282).\<close>

definition errorCode :: "js_error \<Rightarrow> nat" where
  "errorCode error =
     (case err_status error of
        Some n \<Rightarrow> if n \<noteq> 0 then n
                  else (case err_statusCode error of Some m \<Rightarrow> if m \<noteq> 0 then m else 500 | None \<Rightarrow> 500)
      | None \<Rightarrow> (case err_statusCode error of Some m \<Rightarrow> if m \<noteq> 0 then m else 500 | None \<Rightarrow> 500))"

text \<open>
  The handler (lines 234 to 284), given the cache, the clock read at line 237 and the
  scripted upstream answers. It returns the reply, the cache it leaves and the events.
  The \<open>details\<close> member that the error body gets outside production is left out.
\<close>

definition meetingsHandler ::
  "(js \<Rightarrow> js option) \<Rightarrow> string option \<Rightarrow> fetch_result list \<Rightarrow> cache \<Rightarrow> int
     \<Rightarrow> (failure + reply) \<times> cache \<times> event list" where
  "meetingsHandler stringifyParse apiKey script c now =
     (case cacheGet c now of
        Some cached \<Rightarrow> (Inr \<lparr>code = 200, body = JObj [(''items'', JArr cached)]\<rparr>, c, [])
      | None \<Rightarrow>
          (case fetchAllMeetings apiKey script of
             (Inr meetings, tr) \<Rightarrow>
               (let serializedMeetings =
                      filter (\<lambda>m. m \<noteq> JNull) (map (serializeMeeting stringifyParse) meetings)
                in (Inr \<lparr>code = 200, body = JObj [(''items'', JArr serializedMeetings)]\<rparr>,
                    cacheSet serializedMeetings now, tr))
           | (Inl (Thrown error), tr) \<Rightarrow>
               (Inr \<lparr>code = errorCode error,
                     body = JObj [(''error'', JStr ''Failed to fetch meetings''),
                                  (''message'', JStr (message error))]\<rparr>, c, tr)
           | (Inl OutsideModel, tr) \<Rightarrow> (Inl OutsideModel, c, tr)
           | (Inl ScriptExhausted, tr) \<Rightarrow> (Inl ScriptExhausted, c, tr)))"

section \<open>Example answers\<close>

text \<open>Concrete upstream answers and records, used where a statement is checked on an input.\<close>

abbreviation okPage :: "js \<Rightarrow> fetch_result" where
  "okPage v \<equiv> Responded \<lparr>status = 200, statusText = ''OK'', body_text = None, body_json = Inr v\<rparr>"

abbreviation errorAnswer :: "nat \<Rightarrow> string \<Rightarrow> string \<Rightarrow> fetch_result" where
  "errorAnswer n reason b \<equiv>
     Responded \<lparr>status = n, statusText = reason, body_text = Some b, body_json = Inl []\<rparr>"

abbreviation meeting1 :: js where
  "meeting1 \<equiv> JObj [(''recording_id'', JNum 1), (''title'', JStr ''Kickoff'')]"

abbreviation meeting2 :: js where
  "meeting2 \<equiv> JObj [(''recording_id'', JNum 2), (''title'', JStr ''Review'')]"

abbreviation meeting3 :: js where
  "meeting3 \<equiv> JObj [(''recording_id'', JNum 3), (''meeting_title'', JStr ''Retro'')]"

abbreviation firstPage :: fetch_result where
  "firstPage \<equiv> okPage (JObj [(''items'', JArr [meeting1, meeting2]), (''next_cursor'', JStr ''c2'')])"

abbreviation finalPage :: fetch_result where
  "finalPage \<equiv> okPage (JObj [(''data'', JArr [meeting3])])"

abbreviation tooManyRequests :: fetch_result where
  "tooManyRequests \<equiv> errorAnswer 429 ''Too Many Requests'' []"



section \<open>Facts about the upstream client and one pass of the loop\<close>

lemmas page_defs = tryBody_def extractItems_def pushed_def lengthPositive_def spread_def
  extractCursor_def or_js_def

lemmas ok_request_defs = fathomRequest_def keyMissing_def ok_def

lemma includes_str_prefix: "prefix sub s \<Longrightarrow> includes_str s sub"
  by (cases s) auto

lemma enhance_httpError: "enhance (httpError r) = httpError r"
  by (simp add: enhance_def httpError_def Let_def includes_str_prefix)

lemma httpError_status:
  "err_status (httpError r) = Some (status r)" "err_statusCode (httpError r) = Some (status r)"
  by (simp_all add: httpError_def Let_def)

lemma tryBody_key: "tryBody apiKey answer = Inr p \<Longrightarrow> \<not> keyMissing apiKey"
  by (auto simp: tryBody_def fathomRequest_def split: if_splits)

lemma rateLimited_key:
  assumes "rateLimited apiKey answer"
  shows "\<not> keyMissing apiKey"
proof
  assume "keyMissing apiKey"
  then have "tryBody apiKey answer = Inl (Thrown (plainError ''FATHOM_API_KEY is not set''))"
    by (simp add: tryBody_def fathomRequest_def)
  then show False
    using assms by (simp add: rateLimited_def isRateLimit_def plainError_def)
qed

lemma rateLimited_429:
  assumes "\<not> keyMissing apiKey" and "respondsWith 429 answer"
  shows "rateLimited apiKey answer"
proof -
  obtain r where r: "answer = Responded r" "status r = 429"
    using assms(2) by (auto simp: respondsWith_def split: fetch_result.splits)
  have "tryBody apiKey answer = Inl (Thrown (httpError r))"
    using assms(1) r by (simp add: tryBody_def fathomRequest_def ok_def enhance_httpError)
  then show ?thesis
    using r by (simp add: rateLimited_def isRateLimit_def httpError_status)
qed

lemma pushed_list: "pushed (JArr xs) = Inr xs"
  by (cases xs) (simp_all add: pushed_def lengthPositive_def spread_def)

text \<open>
  For an answer that decodes to a page whose items are extracted as the list \<open>xs\<close>, the
  items of the page are \<open>xs\<close>, and the page carries a cursor exactly when one is extracted.
\<close>

lemma pageItems_list:
  assumes "fathomRequest apiKey answer = Inr response"
    and "extractItems response = Inr (JArr xs)"
  shows "pageItems apiKey answer = xs"
    and "carriesCursor apiKey answer = (\<not> nullish (extractCursor response))"
    and "carriesNoCursor apiKey answer = nullish (extractCursor response)"
  using assms
  by (simp_all add: pageItems_def carriesCursor_def carriesNoCursor_def tryBody_def pushed_list)

lemma after_after: "after evs (after evs' r) = after (evs @ evs') r"
  by (simp add: after_def)

lemma after_Nil: "after [] r = r"
  by (simp add: after_def)

lemma iteration_page:
  assumes "carriesCursor apiKey answer"
  shows "iteration apiKey answer st =
           (Continue \<lparr>allMeetings = allMeetings st @ pageItems apiKey answer, retryCount = 0,
                      cursorParam = pageCursor apiKey answer\<rparr>,
            [Request (cursorParam st), Wait 500])"
proof -
  obtain new cursor where t: "tryBody apiKey answer = Inr (new, cursor)" and c: "\<not> nullish cursor"
    using assms by (auto simp: carriesCursor_def split: sum.splits)
  have "\<not> keyMissing apiKey" using t by (rule tryBody_key)
  then show ?thesis
    using t c by (simp add: iteration_def pageItems_def pageCursor_def sent_def)
qed


lemma iteration_rateLimited:
  assumes "rateLimited apiKey answer"
  shows "iteration apiKey answer st =
           (if retryCount st < 5
            then (Continue (st\<lparr>retryCount := retryCount st + 1\<rparr>),
                  [Request (cursorParam st), Wait (2 ^ (retryCount st + 1) * 1000)])
            else (Return (allMeetings st), [Request (cursorParam st), MaxRetriesLogged]))"
proof -
  obtain e where "tryBody apiKey answer = Inl (Thrown e)" "isRateLimit e"
    using assms by (auto simp: rateLimited_def split: sum.splits failure.splits)
  then show ?thesis
    using rateLimited_key [OF assms] by (simp add: iteration_def sent_def maxRetries_def)
qed

lemma pageItems_rateLimited: "rateLimited apiKey answer \<Longrightarrow> pageItems apiKey answer = []"
  by (auto simp: rateLimited_def pageItems_def split: sum.splits)

lemma iteration_abort:
  assumes "fathomRequest apiKey answer = Inl error" and "\<not> isRateLimit error"
  shows "iteration apiKey answer st = (Fail (Thrown error), sent apiKey (cursorParam st))"
  using assms by (simp add: iteration_def tryBody_def)

lemma iteration_Continue_allMeetings:
  "iteration apiKey answer st = (Continue st', evs) \<Longrightarrow>
   allMeetings st' = allMeetings st @ pageItems apiKey answer"
  by (auto simp: iteration_def pageItems_def split: sum.splits failure.splits if_splits)

section \<open>Facts about the loop\<close>

lemma fetchLoop_append:
  "iterations apiKey pre st = Some (st', evs) \<Longrightarrow>
   fetchLoop apiKey (pre @ rest) st = after evs (fetchLoop apiKey rest st')"
proof (induction pre arbitrary: st evs)
  case Nil
  then show ?case by (simp add: after_Nil)
next
  case (Cons answer pre)
  then show ?case
    by (auto simp: after_after split: prod.splits step.splits option.splits)
qed

lemma iterations_append:
  "iterations apiKey (xs @ ys) st =
     (case iterations apiKey xs st of
        None \<Rightarrow> None
      | Some (st', evs) \<Rightarrow>
          (case iterations apiKey ys st' of
             None \<Rightarrow> None
           | Some (st'', evs') \<Rightarrow> Some (st'', evs @ evs')))"
  by (induction xs arbitrary: st) (auto split: prod.splits step.splits option.splits)


lemma iterations_allMeetings:
  "iterations apiKey pre st = Some (st', evs) \<Longrightarrow>
   allMeetings st' = allMeetings st @ concat (map (pageItems apiKey) pre)"
proof (induction pre arbitrary: st evs)
  case Nil
  then show ?case by simp
next
  case (Cons answer pre)
  obtain s1 e1 where it: "iteration apiKey answer st = (Continue s1, e1)"
    using Cons.prems by (auto split: prod.splits step.splits)
  then obtain e2 where rest: "iterations apiKey pre s1 = Some (st', e2)"
    using Cons.prems by (auto split: option.splits)
  show ?case
    using Cons.IH [OF rest] iteration_Continue_allMeetings [OF it] by simp
qed

lemma iterations_retryCount:
  assumes "iterations apiKey pre st = Some (st', evs)"
    and "pre = [] \<or> carriesCursor apiKey (last pre)" and "retryCount st = 0"
  shows "retryCount st' = 0"
proof (cases "pre = []")
  case True
  then show ?thesis using assms by simp
next
  case False
  then obtain xs a where pre: "pre = xs @ [a]" by (metis rev_exhaust)
  then have c: "carriesCursor apiKey a" using assms(2) by simp
  show ?thesis
    using assms(1) unfolding pre iterations_append
    by (auto simp: iteration_page [OF c] split: option.splits)
qed

lemma six_rate_limits:
  assumes len: "length fails = 6" and all: "list_all (rateLimited apiKey) fails"
    and rc: "retryCount st = 0"
  shows "fetchLoop apiKey (fails @ rest) st =
           (Inr (allMeetings st),
            [Request (cursorParam st), Wait 2000, Request (cursorParam st), Wait 4000,
             Request (cursorParam st), Wait 8000, Request (cursorParam st), Wait 16000,
             Request (cursorParam st), Wait 32000, Request (cursorParam st), MaxRetriesLogged])"
proof -
  obtain a1 a2 a3 a4 a5 a6 where fails: "fails = [a1, a2, a3, a4, a5, a6]"
    using len by (auto simp: length_Suc_conv eval_nat_numeral)
  have a: "rateLimited apiKey a1" "rateLimited apiKey a2" "rateLimited apiKey a3"
    "rateLimited apiKey a4" "rateLimited apiKey a5" "rateLimited apiKey a6"
    using all fails by simp_all
  show ?thesis
    using rc by (simp add: fails iteration_rateLimited a after_def)
qed

section \<open>Facts about the example answers\<close>

lemma firstPage_tryBody:
  "tryBody (Some ''key'') firstPage = Inr ([meeting1, meeting2], JStr ''c2'')"
  by (simp add: ok_request_defs page_defs)

lemma finalPage_tryBody:
  "tryBody (Some ''key'') finalPage = Inr ([meeting3], JNull)"
  by (simp add: ok_request_defs page_defs)

lemma firstPage_iterations:
  "iterations (Some ''key'') [firstPage] initial =
     Some (\<lparr>allMeetings = [meeting1, meeting2], retryCount = 0, cursorParam = Some (JStr ''c2'')\<rparr>,
           [Request None, Wait 500])"
  by (simp add: iteration_def firstPage_tryBody sent_def keyMissing_def initial_def)

lemma decimal_500: "decimal 500 = ''500''"
  by (simp add: decimal.simps digitChar_def)

section \<open>The drain\<close>



text \<open>
  C2. At any point of a drain where the request before has succeeded (or none has been
  sent yet), if the next six answers all have status 429, then fetchAllMeetings sends the
  same request six times, the first attempt and exactly five retries, every one with the
  same cursor; it waits 2, 4, 8, 16 and 32 seconds before the retries; and it then returns
  normally the list accumulated from the pages read before. No further answer is asked for.
\<close>

theorem rate_limit_retries_then_partial:
  assumes "\<not> keyMissing apiKey"
    and "iterations apiKey pre initial = Some (st, evs)"
    and "pre = [] \<or> carriesCursor apiKey (last pre)"
    and "length fails = 6" and "list_all (respondsWith 429) fails"
  shows "fetchAllMeetings apiKey (pre @ fails @ rest) =
           (Inr (concat (map (pageItems apiKey) pre)),
            evs @ [Request (cursorParam st), Wait 2000, Request (cursorParam st), Wait 4000,
                   Request (cursorParam st), Wait 8000, Request (cursorParam st), Wait 16000,
                   Request (cursorParam st), Wait 32000, Request (cursorParam st),
                   MaxRetriesLogged])"
proof -
  have rc: "retryCount st = 0"
    using iterations_retryCount [OF assms(2,3)] by (simp add: initial_def)
  have acc: "allMeetings st = concat (map (pageItems apiKey) pre)"
    using iterations_allMeetings [OF assms(2)] by (simp add: initial_def)
  have limited: "list_all (rateLimited apiKey) fails"
    using assms(1,5) by (simp add: list_all_iff rateLimited_429)
  show ?thesis
    unfolding fetchAllMeetings_def fetchLoop_append [OF assms(2)]
      six_rate_limits [OF assms(4) limited rc]
    by (simp add: after_def acc)
qed

theorem rate_limit_retries_then_partial_witness:
  "\<not> keyMissing (Some ''key'')
   \<and> iterations (Some ''key'') [firstPage] initial =
       Some (\<lparr>allMeetings = [meeting1, meeting2], retryCount = 0,
              cursorParam = Some (JStr ''c2'')\<rparr>,
             [Request None, Wait 500])
   \<and> carriesCursor (Some ''key'') (last [firstPage])
   \<and> length (replicate 6 tooManyRequests) = 6
   \<and> list_all (respondsWith 429) (replicate 6 tooManyRequests)
   \<and> fetchAllMeetings (Some ''key'') (firstPage # replicate 6 tooManyRequests @ [finalPage]) =
       (Inr [meeting1, meeting2],
        [Request None, Wait 500,
         Request (Some (JStr ''c2'')), Wait 2000, Request (Some (JStr ''c2'')), Wait 4000,
         Request (Some (JStr ''c2'')), Wait 8000, Request (Some (JStr ''c2'')), Wait 16000,
         Request (Some (JStr ''c2'')), Wait 32000, Request (Some (JStr ''c2'')),
         MaxRetriesLogged])"
proof -
  have key: "\<not> keyMissing (Some ''key'')" by (simp add: keyMissing_def)
  have cur: "carriesCursor (Some ''key'') (last [firstPage])"
    by (simp add: carriesCursor_def firstPage_tryBody)
  then have cur': "[firstPage] = [] \<or> carriesCursor (Some ''key'') (last [firstPage])" ..
  have len: "length (replicate 6 tooManyRequests) = 6" by simp
  have all: "list_all (respondsWith 429) (replicate 6 tooManyRequests)"
    by (simp add: respondsWith_def list_all_iff)
  have items: "pageItems (Some ''key'') firstPage = [meeting1, meeting2]"
    by (simp add: pageItems_def firstPage_tryBody)
  show ?thesis
    using rate_limit_retries_then_partial [OF key firstPage_iterations cur' len all, of "[finalPage]"]
      key firstPage_iterations cur len all items
    by simp
qed

text \<open>
  C3, as the code has it. The \<open>catch\<close> of the loop takes an error for a rate limit when
  its \<open>status\<close> or \<open>statusCode\<close> is 429 or when its message contains \<open>429\<close>. At any point
  of a drain, a request that fails with an error that is none of these ends the drain: that
  error is thrown to the caller and no list is returned.
\<close>

theorem abort_on_other_error:
  assumes "iterations apiKey pre initial = Some (st, evs)"
    and "fathomRequest apiKey failing = Inl error"
    and "\<not> isRateLimit error"
  shows "fetchAllMeetings apiKey (pre @ failing # rest) =
           (Inl (Thrown error), evs @ sent apiKey (cursorParam st))"
  unfolding fetchAllMeetings_def fetchLoop_append [OF assms(1)]
  by (simp add: iteration_abort [OF assms(2,3)] after_def)

theorem abort_on_other_error_witness:
  "iterations (Some ''key'') [firstPage] initial =
     Some (\<lparr>allMeetings = [meeting1, meeting2], retryCount = 0,
            cursorParam = Some (JStr ''c2'')\<rparr>,
           [Request None, Wait 500])
   \<and> fathomRequest (Some ''key'') (errorAnswer 500 ''Internal Server Error'' ''boom'') =
       Inl \<lparr>err_status = Some 500, err_statusCode = Some 500,
            message = ''Fathom API error: 500 Internal Server Error. boom''\<rparr>
   \<and> \<not> isRateLimit \<lparr>err_status = Some 500, err_statusCode = Some 500,
                      message = ''Fathom API error: 500 Internal Server Error. boom''\<rparr>
   \<and> fetchAllMeetings (Some ''key'')
        [firstPage, errorAnswer 500 ''Internal Server Error'' ''boom'', finalPage] =
       (Inl (Thrown \<lparr>err_status = Some 500, err_statusCode = Some 500,
                     message = ''Fathom API error: 500 Internal Server Error. boom''\<rparr>),
        [Request None, Wait 500, Request (Some (JStr ''c2''))])"
proof -
  have failing: "fathomRequest (Some ''key'') (errorAnswer 500 ''Internal Server Error'' ''boom'') =
       Inl \<lparr>err_status = Some 500, err_statusCode = Some 500,
            message = ''Fathom API error: 500 Internal Server Error. boom''\<rparr>"
    by (simp add: ok_request_defs enhance_def httpError_def decimal_500)
  have other: "\<not> isRateLimit \<lparr>err_status = Some 500, err_statusCode = Some 500,
                      message = ''Fathom API error: 500 Internal Server Error. boom''\<rparr>"
    by (simp add: isRateLimit_def)
  show ?thesis
    using abort_on_other_error [OF firstPage_iterations failing other, of "[finalPage]"]
      firstPage_iterations failing other
    by (simp add: sent_def keyMissing_def)
qed

text \<open>
  C3 as stated fails: an answer with status 500 whose body mentions 429 gives an error
  with status 500, which the loop nevertheless retries as a rate limit; after five retries
  the drain returns the partial list instead of throwing.
\<close>

theorem status_500_retried_as_rate_limit:
  "fathomRequest (Some ''key'') (errorAnswer 500 ''Internal Server Error'' ''upstream said 429'') =
     Inl \<lparr>err_status = Some 500, err_statusCode = Some 500,
          message = ''Fathom API error: 500 Internal Server Error. upstream said 429''\<rparr>
   \<and> fetchAllMeetings (Some ''key'')
       (firstPage # replicate 6 (errorAnswer 500 ''Internal Server Error'' ''upstream said 429'')) =
       (Inr [meeting1, meeting2],
        [Request None, Wait 500,
         Request (Some (JStr ''c2'')), Wait 2000, Request (Some (JStr ''c2'')), Wait 4000,
         Request (Some (JStr ''c2'')), Wait 8000, Request (Some (JStr ''c2'')), Wait 16000,
         Request (Some (JStr ''c2'')), Wait 32000, Request (Some (JStr ''c2'')),
         MaxRetriesLogged])"
proof -
  let ?busy = "errorAnswer 500 ''Internal Server Error'' ''upstream said 429''"
  have failing: "fathomRequest (Some ''key'') ?busy =
     Inl \<lparr>err_status = Some 500, err_statusCode = Some 500,
          message = ''Fathom API error: 500 Internal Server Error. upstream said 429''\<rparr>"
    by (simp add: ok_request_defs enhance_def httpError_def decimal_500)
  have limited: "rateLimited (Some ''key'') ?busy"
    by (simp add: rateLimited_def tryBody_def failing isRateLimit_def)
  have all: "list_all (rateLimited (Some ''key'')) (replicate 6 ?busy)"
    using limited by (simp add: list_all_iff)
  have six: "fetchLoop (Some ''key'') (replicate 6 ?busy @ [])
               \<lparr>allMeetings = [meeting1, meeting2], retryCount = 0,
                cursorParam = Some (JStr ''c2'')\<rparr> =
             (Inr [meeting1, meeting2],
              [Request (Some (JStr ''c2'')), Wait 2000, Request (Some (JStr ''c2'')), Wait 4000,
               Request (Some (JStr ''c2'')), Wait 8000, Request (Some (JStr ''c2'')), Wait 16000,
               Request (Some (JStr ''c2'')), Wait 32000, Request (Some (JStr ''c2'')),
               MaxRetriesLogged])"
    using six_rate_limits [OF _ all, of _ "[]"] by simp
  have "fetchAllMeetings (Some ''key'') ([firstPage] @ replicate 6 ?busy @ []) =
          after [Request None, Wait 500]
            (fetchLoop (Some ''key'') (replicate 6 ?busy @ [])
               \<lparr>allMeetings = [meeting1, meeting2], retryCount = 0,
                cursorParam = Some (JStr ''c2'')\<rparr>)"
    unfolding fetchAllMeetings_def by (rule fetchLoop_append [OF firstPage_iterations])
  then have "fetchAllMeetings (Some ''key'') ([firstPage] @ replicate 6 ?busy @ []) =
       (Inr [meeting1, meeting2],
        [Request None, Wait 500,
         Request (Some (JStr ''c2'')), Wait 2000, Request (Some (JStr ''c2'')), Wait 4000,
         Request (Some (JStr ''c2'')), Wait 8000, Request (Some (JStr ''c2'')), Wait 16000,
         Request (Some (JStr ''c2'')), Wait 32000, Request (Some (JStr ''c2'')),
         MaxRetriesLogged])"
    unfolding six by (simp add: after_def)
  then show ?thesis
    using failing by simp
qed

section \<open>The cache\<close>

text \<open>
  C4. A read right after a write of \<open>records\<close> at time \<open>t0\<close>, while \<open>now - t0\<close> is under the
  TTL of five minutes, gives exactly \<open>records\<close>, and the handler then answers with them
  unchanged, sends nothing upstream and leaves the cache as it is. Once \<open>now - t0\<close> has
  reached the TTL the read is a miss, although the slot still holds \<open>records\<close>. (The test
  of line 238 reads the timestamp for truthiness, so the clock value 0, the first
  millisecond of 1970, is taken apart.)
\<close>

theorem cache_get_after_set:
  assumes "t0 \<noteq> 0"
  shows "(now - t0 < CACHE_TTL \<longrightarrow>
            cacheGet (cacheSet records t0) now = Some records
            \<and> meetingsHandler stringifyParse apiKey script (cacheSet records t0) now =
                (Inr \<lparr>code = 200, body = JObj [(''items'', JArr records)]\<rparr>,
                 cacheSet records t0, []))
       \<and> (CACHE_TTL \<le> now - t0 \<longrightarrow>
            cacheGet (cacheSet records t0) now = None
            \<and> meetingsCache (cacheSet records t0) = Some records)"
  using assms by (simp add: meetingsHandler_def cacheGet_def cacheHit_def cacheSet_def)

theorem cache_get_after_set_witness:
  "(1000 :: int) \<noteq> 0
   \<and> (2000 :: int) - 1000 < CACHE_TTL
   \<and> cacheGet (cacheSet [meeting1, meeting2] 1000) 2000 = Some [meeting1, meeting2]
   \<and> meetingsHandler Some (Some ''key'') [] (cacheSet [meeting1, meeting2] 1000) 2000 =
       (Inr \<lparr>code = 200, body = JObj [(''items'', JArr [meeting1, meeting2])]\<rparr>,
        cacheSet [meeting1, meeting2] 1000, [])
   \<and> CACHE_TTL \<le> (301000 :: int) - 1000
   \<and> cacheGet (cacheSet [meeting1, meeting2] 1000) 301000 = None
   \<and> meetingsCache (cacheSet [meeting1, meeting2] 1000) = Some [meeting1, meeting2]"
  using cache_get_after_set [of 1000 2000 "[meeting1, meeting2]" Some "Some ''key''" "[]"]
    cache_get_after_set [of 1000 301000 "[meeting1, meeting2]" Some "Some ''key''" "[]"]
  by (simp add: CACHE_TTL_def)

text \<open>
  C10. On a miss followed by a drain that returns, the timestamp stored with the new
  records is the clock value \<open>now\<close> that the handler read before the drain (line 237),
  whatever the drain then did and however long it took. Hence, for a drain that took \<open>d\<close>
  milliseconds, a later request at time \<open>later\<close> is served from the cache exactly when the
  time since the drain completed, \<open>later - (now + d)\<close>, is under the TTL less \<open>d\<close>.
\<close>

theorem cache_timestamp_is_request_time:
  assumes "cacheGet c now = None"
    and "fetchAllMeetings apiKey script = (Inr meetings, tr)"
    and "now \<noteq> 0"
  shows "meetingsHandler stringifyParse apiKey script c now =
           (Inr \<lparr>code = 200,
                 body = JObj [(''items'',
                   JArr (filter (\<lambda>m. m \<noteq> JNull) (map (serializeMeeting stringifyParse) meetings)))]\<rparr>,
            \<lparr>meetingsCache =
               Some (filter (\<lambda>m. m \<noteq> JNull) (map (serializeMeeting stringifyParse) meetings)),
             cacheTimestamp = Some now\<rparr>,
            tr)
       \<and> (\<forall>d later.
            cacheHit (fst (snd (meetingsHandler stringifyParse apiKey script c now))) later
            = (later - (now + d) < CACHE_TTL - d))"
  using assms by (simp add: meetingsHandler_def cacheSet_def cacheHit_def Let_def)

lemma two_pages_drain:
  "fetchAllMeetings (Some ''key'') [firstPage, finalPage] =
     (Inr [meeting1, meeting2, meeting3],
      [Request None, Wait 500, Request (Some (JStr ''c2''))])"
proof -
  have "fetchAllMeetings (Some ''key'') ([firstPage] @ [finalPage]) =
          after [Request None, Wait 500]
            (fetchLoop (Some ''key'') [finalPage]
               \<lparr>allMeetings = [meeting1, meeting2], retryCount = 0,
                cursorParam = Some (JStr ''c2'')\<rparr>)"
    unfolding fetchAllMeetings_def by (rule fetchLoop_append [OF firstPage_iterations])
  then show ?thesis
    by (simp add: iteration_def finalPage_tryBody sent_def keyMissing_def after_def)
qed

lemma serializeMeeting_examples:
  "serializeMeeting sp meeting1 = meeting1"
  "serializeMeeting sp meeting2 = meeting2"
  "serializeMeeting sp meeting3 = meeting3"
  by (simp_all add: serializeMeeting_def)

theorem cache_timestamp_is_request_time_witness:
  "cacheGet cacheClear 1000 = None
   \<and> fetchAllMeetings (Some ''key'') [firstPage, finalPage] =
       (Inr [meeting1, meeting2, meeting3],
        [Request None, Wait 500, Request (Some (JStr ''c2''))])
   \<and> (1000 :: int) \<noteq> 0
   \<and> meetingsHandler Some (Some ''key'') [firstPage, finalPage] cacheClear 1000 =
       (Inr \<lparr>code = 200, body = JObj [(''items'', JArr [meeting1, meeting2, meeting3])]\<rparr>,
        \<lparr>meetingsCache = Some [meeting1, meeting2, meeting3], cacheTimestamp = Some 1000\<rparr>,
        [Request None, Wait 500, Request (Some (JStr ''c2''))])
   \<and> cacheHit (fst (snd (meetingsHandler Some (Some ''key'') [firstPage, finalPage] cacheClear 1000)))
        300999
   \<and> \<not> cacheHit (fst (snd (meetingsHandler Some (Some ''key'') [firstPage, finalPage] cacheClear 1000)))
        301000"
proof -
  have miss: "cacheGet cacheClear 1000 = None"
    by (simp add: cacheGet_def cacheHit_def cacheClear_def)
  have now: "(1000 :: int) \<noteq> 0" by simp
  note run = cache_timestamp_is_request_time [OF miss two_pages_drain now, of Some]
  from run have handler:
    "meetingsHandler Some (Some ''key'') [firstPage, finalPage] cacheClear 1000 =
       (Inr \<lparr>code = 200, body = JObj [(''items'', JArr [meeting1, meeting2, meeting3])]\<rparr>,
        \<lparr>meetingsCache = Some [meeting1, meeting2, meeting3], cacheTimestamp = Some 1000\<rparr>,
        [Request None, Wait 500, Request (Some (JStr ''c2''))])"
    by (simp add: serializeMeeting_examples)
  from run have window: "\<And>later.
      cacheHit (fst (snd (meetingsHandler Some (Some ''key'') [firstPage, finalPage] cacheClear 1000)))
        later = (later - (1000 + 500) < CACHE_TTL - 500)"
    by blast
  show ?thesis
    using miss two_pages_drain handler window [of 300999] window [of 301000]
    by (simp add: CACHE_TTL_def)
qed

section \<open>GET /api/meetings/:id/transcript\<close>

lemma parseInt_abc: "parseInt ''abc'' = None"
  by (simp add: parseInt_def isStrWhiteSpace_def radixDigit_def digitVal_def)

lemma parseInt_42: "parseInt ''42'' = Some (Finite 42)"
  by (simp add: parseInt_def isStrWhiteSpace_def radixDigit_def digitVal_def digitsValue_def
      roundToDouble_def)

lemmas parseInt_defs = parseInt_def isStrWhiteSpace_def radixDigit_def digitVal_def digitsValue_def
  roundToDouble_def

text \<open>
  The Number read: integers below \<open>2 ^ 53\<close> are kept as they are, and from \<open>2 ^ 1024\<close>
  on the Number is infinite.
\<close>

lemma bitLength_bounds: "2 ^ k \<le> n \<Longrightarrow> n < 2 ^ Suc k \<Longrightarrow> bitLength n = Suc k"
proof (induction k arbitrary: n)
  case 0
  then have "n = 1" by simp
  then show ?case by (simp add: bitLength.simps)
next
  case (Suc k)
  have "2 ^ k \<le> n div 2" using Suc.prems(1) by simp
  moreover have "n div 2 < 2 ^ Suc k" using Suc.prems(2) by simp
  ultimately have "bitLength (n div 2) = Suc k" by (rule Suc.IH)
  moreover have "0 < (2::nat) ^ Suc k" by simp
  then have "n \<noteq> 0" using Suc.prems(1) by linarith
  ultimately show ?case by (subst bitLength.simps) simp
qed

lemma bitLength_upper: "n < 2 ^ bitLength n"
proof (induction n rule: bitLength.induct)
  case (1 n)
  show ?case
  proof (cases "n = 0")
    case True
    then show ?thesis by simp
  next
    case False
    then have "n div 2 < 2 ^ bitLength (n div 2)" by (rule "1.IH")
    then have "n < 2 * 2 ^ bitLength (n div 2)" by simp
    then show ?thesis using False by (subst bitLength.simps) simp
  qed
qed

lemma bitLength_lower: "0 < n \<Longrightarrow> 2 ^ (bitLength n - 1) \<le> n"
proof (induction n rule: bitLength.induct)
  case (1 n)
  show ?case
  proof (cases "n div 2 = 0")
    case True
    then have "bitLength (n div 2) = 0" by (simp add: bitLength.simps)
    then have "bitLength n = 1" using "1.prems" by (subst bitLength.simps) simp
    then show ?thesis using "1.prems" by simp
  next
    case False
    then have pos: "0 < n div 2" by simp
    have "n \<noteq> 0" using "1.prems" by simp
    then have ih: "2 ^ (bitLength (n div 2) - 1) \<le> n div 2" using pos by (rule "1.IH")
    have "0 < bitLength (n div 2)" using pos by (subst bitLength.simps) simp
    then have "bitLength n - 1 = Suc (bitLength (n div 2) - 1)"
      using "1.prems" by (subst bitLength.simps) simp
    then show ?thesis using ih by simp
  qed
qed

lemma roundToDouble_exact: "n < 2 ^ 53 \<Longrightarrow> roundToDouble n = Some n"
  by (simp add: roundToDouble_def)

lemma rounded_down_is_large:
  assumes "2 ^ M \<le> n" and "0 < P" and "P \<le> M"
  shows "(2::nat) ^ M \<le> (n div 2 ^ (bitLength n - P)) * 2 ^ (bitLength n - P)"
proof -
  define B where "B = bitLength n"
  define e where "e = B - P"
  have "0 < (2::nat) ^ M" by simp
  then have pos: "0 < n" using assms(1) by linarith
  have lt: "(2::nat) ^ M < 2 ^ B"
    using assms(1) bitLength_upper [of n] unfolding B_def by linarith
  have B: "M < B" by (rule power_less_imp_less_exp [OF _ lt]) simp
  have low: "2 ^ (B - 1) \<le> n" using bitLength_lower [OF pos] by (simp add: B_def)
  have split: "B - 1 = (P - 1) + e" using B assms(2,3) by (simp add: e_def)
  have "2 ^ (P - 1) * 2 ^ e \<le> n" using low unfolding split by (simp add: power_add)
  then have q: "2 ^ (P - 1) \<le> n div 2 ^ e"
    by (simp add: less_eq_div_iff_mult_less_eq)
  have "(2::nat) ^ M \<le> 2 ^ (B - 1)" using B by (simp add: power_increasing)
  also have "\<dots> = 2 ^ (P - 1) * 2 ^ e" unfolding split by (simp add: power_add)
  also have "\<dots> \<le> (n div 2 ^ e) * 2 ^ e" using q by simp
  finally show ?thesis by (simp add: e_def B_def)
qed

lemma roundToDouble_overflow:
  assumes "2 ^ 1024 \<le> n"
  shows "roundToDouble n = None"
proof -
  define e where "e = bitLength n - 53"
  define q where "q = n div 2 ^ e"
  have big: "2 ^ 1024 \<le> q * 2 ^ e"
    unfolding q_def e_def by (rule rounded_down_is_large [OF assms]) simp_all
  then have big': "2 ^ 1024 \<le> (q + 1) * 2 ^ e"
    by (metis add_mult_distrib le_add1 le_trans)
  have "(2::nat) ^ 53 \<le> 2 ^ 1024" by (rule power_increasing) simp_all
  then have large: "\<not> n < 2 ^ 53" using assms by linarith
  have "roundToDouble n =
          (let q' = (if 2 ^ e < 2 * (n mod 2 ^ e) \<or> (2 * (n mod 2 ^ e) = 2 ^ e \<and> odd q)
                     then q + 1 else q)
           in if q' * 2 ^ e < 2 ^ 1024 then Some (q' * 2 ^ e) else None)"
    unfolding roundToDouble_def Let_def e_def q_def using large by (simp only: if_False)
  also have "\<dots> = None"
    unfolding Let_def using big big' by (auto simp only: not_less [symmetric] if_False split: if_splits)
  finally show ?thesis .
qed

text \<open>
  An id beyond \<open>2 ^ 53\<close> is rounded: for the id 9007199254740993 the Number read, and
  requested, is 9007199254740992.
\<close>

lemma parseInt_rounds:
  "parseInt ''9007199254740993'' = Some (Finite 9007199254740992)"
proof -
  have digits: "digitsValue 10 ''9007199254740993'' = 9007199254740993"
    by (simp add: digitsValue_def radixDigit_def digitVal_def)
  have "bitLength 9007199254740993 = 54"
    using bitLength_bounds [of 53 9007199254740993] by simp
  then have "roundToDouble 9007199254740993 = Some 9007199254740992"
    by (simp add: roundToDouble_def Let_def)
  then show ?thesis
    by (simp add: parseInt_def isStrWhiteSpace_def radixDigit_def digitVal_def digits)
qed

text \<open>
  C7, as the code has it. The handler answers 400, with the id as it came and without any
  upstream request, exactly when \<open>parseInt\<close> gives NaN for the id: after optional white
  space, a sign and a \<open>0x\<close>, no digit follows. \<open>parseInt\<close> reads a leading integer and
  ignores what follows it, so every other id is accepted: the reply is not 400, and the
  transcript is requested (when a key is set) for the Number that \<open>parseInt\<close> returns,
  which is the integer read, rounded to a double.
\<close>

theorem transcript_id_guard:
  "(parseInt meetingId = None \<longrightarrow>
      transcriptHandler apiKey meetingId answer =
        (\<lparr>code = 400, body = JObj [(''error'', JStr ''Invalid meeting ID''),
                                 (''recording_id'', JStr meetingId)]\<rparr>, []))
   \<and> (parseInt meetingId = Some recordingId \<longrightarrow>
        code (fst (transcriptHandler apiKey meetingId answer)) \<noteq> 400
        \<and> snd (transcriptHandler apiKey meetingId answer) =
            (if keyMissing apiKey then [] else [TranscriptRequest recordingId]))"
  by (auto simp: transcriptHandler_def notFound_def Let_def split: sum.splits)

theorem transcript_id_guard_witness:
  "parseInt ''abc'' = None
   \<and> transcriptHandler (Some ''key'') ''abc'' (okPage (JObj [(''transcript'', JStr ''hello'')])) =
       (\<lparr>code = 400, body = JObj [(''error'', JStr ''Invalid meeting ID''),
                                (''recording_id'', JStr ''abc'')]\<rparr>, [])
   \<and> parseInt ''42'' = Some (Finite 42)
   \<and> code (fst (transcriptHandler (Some ''key'') ''42''
                  (okPage (JObj [(''transcript'', JStr ''hello'')])))) \<noteq> 400
   \<and> snd (transcriptHandler (Some ''key'') ''42'' (okPage (JObj [(''transcript'', JStr ''hello'')])))
       = [TranscriptRequest (Finite 42)]"
  using transcript_id_guard [of "''abc''" "Some ''key''" "okPage (JObj [(''transcript'', JStr ''hello'')])"]
    transcript_id_guard [of "''42''" "Some ''key''" "okPage (JObj [(''transcript'', JStr ''hello'')])"
      "Finite 42"]
    parseInt_abc parseInt_42
  by (simp add: keyMissing_def)

text \<open>
  C7 as stated fails: the ids \<open>1.5\<close> and \<open>12abc\<close> are not integers, yet the handler
  accepts them and requests the transcripts of recordings 1 and 12.
\<close>

theorem non_integer_id_reaches_upstream:
  "parseInt ''1.5'' = Some (Finite 1)
   \<and> transcriptHandler (Some ''key'') ''1.5'' (okPage (JObj [(''transcript'', JStr ''hello'')])) =
       (\<lparr>code = 200, body = JObj [(''transcript'', JStr ''hello'')]\<rparr>, [TranscriptRequest (Finite 1)])
   \<and> parseInt ''12abc'' = Some (Finite 12)
   \<and> transcriptHandler (Some ''key'') ''12abc'' (okPage (JObj [(''transcript'', JStr ''hello'')])) =
       (\<lparr>code = 200, body = JObj [(''transcript'', JStr ''hello'')]\<rparr>, [TranscriptRequest (Finite 12)])"
  by (simp add: transcriptHandler_def parseInt_defs ok_request_defs extractTranscript_def)

text \<open>
  C9. When the upstream request succeeds and the transcript extracted from the answer is
  falsy (the empty string, for one), the handler answers 404 \<open>Transcript not found\<close>, with
  the id, and not 200. The reply is the very one given when the upstream answers 404.
\<close>

theorem transcript_falsy_is_not_found:
  assumes "parseInt meetingId = Some recordingId"
    and "fathomRequest apiKey answer = Inr response"
    and "extractTranscript response = Inr transcript"
    and "\<not> truthy transcript"
  shows "transcriptHandler apiKey meetingId answer =
           (\<lparr>code = 404, body = JObj [(''error'', JStr ''Transcript not found''),
                                    (''recording_id'', JStr meetingId)]\<rparr>,
            [TranscriptRequest recordingId])
       \<and> (\<forall>r. status r = 404 \<longrightarrow>
             transcriptHandler apiKey meetingId (Responded r) =
             transcriptHandler apiKey meetingId answer)"
proof -
  have key: "\<not> keyMissing apiKey"
    using assms(2) by (auto simp: fathomRequest_def split: if_splits)
  have first: "transcriptHandler apiKey meetingId answer =
           (notFound meetingId, [TranscriptRequest recordingId])"
    using assms key by (simp add: transcriptHandler_def)
  have absent: "transcriptHandler apiKey meetingId (Responded r) =
           (notFound meetingId, [TranscriptRequest recordingId])" if "status r = 404" for r
  proof -
    have "fathomRequest apiKey (Responded r) = Inl (httpError r)"
      using key that by (simp add: fathomRequest_def ok_def enhance_httpError)
    then show ?thesis
      using assms(1) key that by (simp add: transcriptHandler_def httpError_status)
  qed
  show ?thesis using first absent by (simp add: notFound_def)
qed

theorem transcript_falsy_is_not_found_witness:
  "parseInt ''42'' = Some (Finite 42)
   \<and> fathomRequest (Some ''key'') (okPage (JStr [])) = Inr (JStr [])
   \<and> extractTranscript (JStr []) = Inr (JStr [])
   \<and> \<not> truthy (JStr [])
   \<and> transcriptHandler (Some ''key'') ''42'' (okPage (JStr [])) =
       (\<lparr>code = 404, body = JObj [(''error'', JStr ''Transcript not found''),
                                (''recording_id'', JStr ''42'')]\<rparr>,
        [TranscriptRequest (Finite 42)])
   \<and> transcriptHandler (Some ''key'') ''42'' (errorAnswer 404 ''Not Found'' []) =
     transcriptHandler (Some ''key'') ''42'' (okPage (JStr []))"
proof -
  have fetched: "fathomRequest (Some ''key'') (okPage (JStr [])) = Inr (JStr [])"
    by (simp add: ok_request_defs)
  have extracted: "extractTranscript (JStr []) = Inr (JStr [])"
    by (simp add: extractTranscript_def)
  have falsy: "\<not> truthy (JStr [])" by simp
  show ?thesis
    using transcript_falsy_is_not_found [OF parseInt_42 fetched extracted falsy]
      parseInt_42 fetched extracted
    by simp
qed

section \<open>Extraction of items and cursor\<close>

lemma isArray_truthy: "isArray v \<Longrightarrow> truthy v"
  by (cases v) simp_all

lemma extractItems_itemsByPriority:
  "\<not> nullish response \<Longrightarrow> extractItems response = Inr (itemsByPriority response)"
  by (auto simp: extractItems_def itemsByPriority_def itemShapes_def bareList_def itemsKey_def
      dataAsList_def dataItems_def isArray_truthy)

lemma extractCursor_cursorByPriority: "extractCursor response = cursorByPriority response"
  by (simp add: extractCursor_def cursorByPriority_def cursorFields_def or_js_def)

lemma no_shape_tryBody:
  assumes "\<not> nullish response" and "firstMatch itemShapes response = None"
    and "fathomRequest apiKey answer = Inr response"
  shows "tryBody apiKey answer = Inr ([], extractCursor response)"
proof -
  have "extractItems response = Inr (JArr [])"
    using assms(1,2) by (simp add: extractItems_itemsByPriority itemsByPriority_def)
  then show ?thesis
    using assms(3) by (simp add: tryBody_def pushed_def lengthPositive_def)
qed

text \<open>
  C6, as the code has it. For every answer other than \<open>null\<close>, the items are taken from the
  first shape that matches, in the order: the answer is a list; its \<open>items\<close> is truthy; its
  \<open>data\<close> is a list; its \<open>data.items\<close> is truthy. When no shape matches, the page adds
  no items, the pass does not throw, and the loop goes on or ends by the cursor alone.
  The cursor is the first truthy value among \<open>next_cursor\<close>, \<open>cursor\<close> and
  \<open>pagination.next_cursor\<close>, in this order, and \<open>null\<close> when none is truthy: a value that
  is present but falsy (0, false, the empty string) is passed over.
\<close>

theorem extraction_by_priority:
  assumes "\<not> nullish response"
  shows "extractItems response = Inr (itemsByPriority response)
       \<and> extractCursor response = cursorByPriority response
       \<and> (firstMatch itemShapes response = None \<and> fathomRequest apiKey answer = Inr response \<longrightarrow>
            iteration apiKey answer st =
              (if nullish (extractCursor response)
               then (Return (allMeetings st), [Request (cursorParam st)])
               else (Continue \<lparr>allMeetings = allMeetings st, retryCount = 0,
                               cursorParam = Some (extractCursor response)\<rparr>,
                     [Request (cursorParam st), Wait 500])))"
proof -
  have "iteration apiKey answer st =
              (if nullish (extractCursor response)
               then (Return (allMeetings st), [Request (cursorParam st)])
               else (Continue \<lparr>allMeetings = allMeetings st, retryCount = 0,
                               cursorParam = Some (extractCursor response)\<rparr>,
                     [Request (cursorParam st), Wait 500]))"
    if none: "firstMatch itemShapes response = None"
      and fetched: "fathomRequest apiKey answer = Inr response"
  proof -
    have t: "tryBody apiKey answer = Inr ([], extractCursor response)"
      using assms none fetched by (rule no_shape_tryBody)
    have "\<not> keyMissing apiKey" using t by (rule tryBody_key)
    then show ?thesis using t by (simp add: iteration_def sent_def)
  qed
  then show ?thesis
    using assms by (simp add: extractItems_itemsByPriority extractCursor_cursorByPriority)
qed

theorem extraction_by_priority_witness:
  "\<not> nullish (JObj [(''count'', JNum 0), (''pagination'', JObj [(''next_cursor'', JStr ''c9'')])])
   \<and> firstMatch itemShapes
        (JObj [(''count'', JNum 0), (''pagination'', JObj [(''next_cursor'', JStr ''c9'')])]) = None
   \<and> fathomRequest (Some ''key'')
        (okPage (JObj [(''count'', JNum 0), (''pagination'', JObj [(''next_cursor'', JStr ''c9'')])]))
       = Inr (JObj [(''count'', JNum 0), (''pagination'', JObj [(''next_cursor'', JStr ''c9'')])])
   \<and> extractItems (JObj [(''count'', JNum 0), (''pagination'', JObj [(''next_cursor'', JStr ''c9'')])])
       = Inr (JArr [])
   \<and> extractCursor (JObj [(''count'', JNum 0), (''pagination'', JObj [(''next_cursor'', JStr ''c9'')])])
       = JStr ''c9''
   \<and> iteration (Some ''key'')
        (okPage (JObj [(''count'', JNum 0), (''pagination'', JObj [(''next_cursor'', JStr ''c9'')])]))
        \<lparr>allMeetings = [meeting1], retryCount = 0, cursorParam = Some (JStr ''c8'')\<rparr>
       = (Continue \<lparr>allMeetings = [meeting1], retryCount = 0, cursorParam = Some (JStr ''c9'')\<rparr>,
          [Request (Some (JStr ''c8'')), Wait 500])"
proof -
  let ?r = "JObj [(''count'', JNum 0), (''pagination'', JObj [(''next_cursor'', JStr ''c9'')])]"
  have present: "\<not> nullish ?r" by simp
  have none: "firstMatch itemShapes ?r = None"
    by (simp add: itemShapes_def bareList_def itemsKey_def dataAsList_def dataItems_def)
  have fetched: "fathomRequest (Some ''key'') (okPage ?r) = Inr ?r"
    by (simp add: ok_request_defs)
  have items: "itemsByPriority ?r = JArr []"
    by (simp add: itemsByPriority_def none)
  have cursor: "cursorByPriority ?r = JStr ''c9''"
    by (simp add: cursorByPriority_def cursorFields_def)
  show ?thesis
    using extraction_by_priority [OF present, of "Some ''key''" "okPage ?r"
        "\<lparr>allMeetings = [meeting1], retryCount = 0, cursorParam = Some (JStr ''c8'')\<rparr>"]
      none fetched items cursor
    by simp
qed

text \<open>
  C6 as stated fails. A \<open>next_cursor\<close> of 0 is present, yet \<open>cursor\<close> wins; and for the
  answer \<open>null\<close>, which matches no shape, the drain fails with a TypeError.
\<close>

theorem falsy_cursor_skipped_and_null_page_throws:
  "extractCursor (JObj [(''next_cursor'', JNum 0), (''cursor'', JStr ''abc'')]) = JStr ''abc''
   \<and> fetchAllMeetings (Some ''key'') [okPage JNull] =
       (Inl (Thrown \<lparr>err_status = None, err_statusCode = None,
                     message = ''Cannot read properties of null (reading 'items')''\<rparr>),
        [Request None])"
  by (simp add: extractCursor_def or_js_def fetchAllMeetings_def iteration_def tryBody_def
      ok_request_defs extractItems_def isRateLimit_def plainError_def sent_def initial_def)

section \<open>Normalisation\<close>







section \<open>What the cache holds\<close>

lemma iteration_Return:
  assumes "iteration apiKey answer st = (Return meetings, evs)"
  shows "meetings = allMeetings st @ pageItems apiKey answer
       \<and> ((carriesNoCursor apiKey answer \<and> evs = [Request (cursorParam st)])
          \<or> (rateLimited apiKey answer \<and> evs = [Request (cursorParam st), MaxRetriesLogged]))"
proof (cases "tryBody apiKey answer")
  case (Inr p)
  then have key: "\<not> keyMissing apiKey" by (rule tryBody_key)
  obtain new cursor where p: "p = (new, cursor)" by (cases p)
  show ?thesis
    using assms Inr p key
    by (auto simp: iteration_def pageItems_def carriesNoCursor_def sent_def split: if_splits)
next
  case (Inl f)
  then obtain e where f: "f = Thrown e" and limit: "isRateLimit e"
    using assms by (cases f) (auto simp: iteration_def split: if_splits)
  have limited: "rateLimited apiKey answer"
    using Inl f limit by (simp add: rateLimited_def)
  show ?thesis
    using assms limited rateLimited_key [OF limited]
    by (auto simp: iteration_rateLimited pageItems_rateLimited split: if_splits)
qed

lemma fetchLoop_returns:
  assumes "fetchLoop apiKey script st = (Inr meetings, tr)"
  shows "\<exists>pre a rest st' evs.
           script = pre @ a # rest
           \<and> iterations apiKey pre st = Some (st', evs)
           \<and> meetings = allMeetings st' @ pageItems apiKey a
           \<and> ((carriesNoCursor apiKey a \<and> tr = evs @ [Request (cursorParam st')])
              \<or> (rateLimited apiKey a \<and> tr = evs @ [Request (cursorParam st'), MaxRetriesLogged]))"
  using assms
proof (induction script arbitrary: st tr)
  case Nil
  then show ?case by (simp split: if_splits)
next
  case (Cons answer script)
  obtain outcome evs where it: "iteration apiKey answer st = (outcome, evs)"
    by (cases "iteration apiKey answer st")
  show ?case
  proof (cases outcome)
    case (Continue s1)
    obtain res tr1 where rest: "fetchLoop apiKey script s1 = (res, tr1)"
      by (cases "fetchLoop apiKey script s1")
    have res: "res = Inr meetings" and tr: "tr = evs @ tr1"
      using Cons.prems it Continue rest by (simp_all add: after_def)
    obtain pre a rest' st' evs' where
      split: "script = pre @ a # rest'"
      and run: "iterations apiKey pre s1 = Some (st', evs')"
      and acc: "meetings = allMeetings st' @ pageItems apiKey a"
      and last: "(carriesNoCursor apiKey a \<and> tr1 = evs' @ [Request (cursorParam st')])
              \<or> (rateLimited apiKey a \<and> tr1 = evs' @ [Request (cursorParam st'), MaxRetriesLogged])"
      using Cons.IH [of s1 tr1] rest res by blast
    have "answer # script = (answer # pre) @ a # rest'"
      using split by simp
    moreover have "iterations apiKey (answer # pre) st = Some (st', evs @ evs')"
      using it Continue run by simp
    moreover have "(carriesNoCursor apiKey a \<and> tr = (evs @ evs') @ [Request (cursorParam st')])
              \<or> (rateLimited apiKey a
                  \<and> tr = (evs @ evs') @ [Request (cursorParam st'), MaxRetriesLogged])"
      using last tr by auto
    ultimately show ?thesis using acc by blast
  next
    case (Return ms)
    then have ms: "ms = meetings" and tr: "tr = evs"
      using Cons.prems it by simp_all
    have "answer # script = [] @ answer # script" by simp
    moreover have "iterations apiKey [] st = Some (st, [])" by simp
    ultimately show ?thesis
      using iteration_Return [of apiKey answer st meetings evs] it Return ms tr
      by (metis append_Nil)
  next
    case (Fail f)
    then show ?thesis using Cons.prems it by simp
  qed
qed

text \<open>
  C5, as the code has it. A run of the handler leaves the cache as it was when it serves
  from the cache or when the drain fails; otherwise it stores, with the clock value read
  at the start, the normalised items of all the answers the drain has taken, and the last
  of these answers is either a page without cursor (the drain is complete) or the
  rate-limited answer on which the retries ran out (the drain is partial, and the log
  line for it is the last event). So every write stores the result of a drain that
  returned, complete or cut short by rate limiting, and a failed drain writes nothing.
\<close>

theorem cache_holds_returned_drain:
  assumes "meetingsHandler stringifyParse apiKey script c now = (r, c', tr)"
  shows "(c' = c \<and> (cacheHit c now \<or> (\<exists>f. fst (fetchAllMeetings apiKey script) = Inl f)))
       \<or> (\<exists>pre a rest.
             script = pre @ a # rest
             \<and> iterations apiKey pre initial \<noteq> None
             \<and> c' = cacheSet (filter (\<lambda>m. m \<noteq> JNull)
                       (map (serializeMeeting stringifyParse)
                          (concat (map (pageItems apiKey) (pre @ [a]))))) now
             \<and> (carriesNoCursor apiKey a \<or> (rateLimited apiKey a \<and> last tr = MaxRetriesLogged)))"
proof (cases "cacheHit c now")
  case True
  then have "c' = c"
    using assms by (auto simp: meetingsHandler_def cacheGet_def cacheHit_def split: option.splits)
  then show ?thesis using True by simp
next
  case False
  then have miss: "cacheGet c now = None" by (simp add: cacheGet_def)
  obtain res tr0 where drain: "fetchAllMeetings apiKey script = (res, tr0)"
    by (cases "fetchAllMeetings apiKey script")
  show ?thesis
  proof (cases res)
    case (Inl f)
    then have "c' = c"
      using assms miss drain by (cases f) (simp_all add: meetingsHandler_def)
    then show ?thesis using Inl drain by simp
  next
    case (Inr meetings)
    then have written: "c' = cacheSet (filter (\<lambda>m. m \<noteq> JNull)
                       (map (serializeMeeting stringifyParse) meetings)) now"
      and tr: "tr = tr0"
      using assms miss drain by (simp_all add: meetingsHandler_def Let_def)
    obtain pre a rest st' evs where
      split: "script = pre @ a # rest"
      and run: "iterations apiKey pre initial = Some (st', evs)"
      and acc: "meetings = allMeetings st' @ pageItems apiKey a"
      and last: "(carriesNoCursor apiKey a \<and> tr0 = evs @ [Request (cursorParam st')])
              \<or> (rateLimited apiKey a \<and> tr0 = evs @ [Request (cursorParam st'), MaxRetriesLogged])"
      using fetchLoop_returns [of apiKey script initial meetings tr0] drain Inr
      unfolding fetchAllMeetings_def by blast
    have "meetings = concat (map (pageItems apiKey) (pre @ [a]))"
      using acc iterations_allMeetings [OF run] by (simp add: initial_def)
    moreover have "carriesNoCursor apiKey a \<or> (rateLimited apiKey a \<and> last tr = MaxRetriesLogged)"
      using last tr by auto
    ultimately show ?thesis
      using split run written by blast
  qed
qed

lemma rate_limited_drain:
  "fetchAllMeetings (Some ''key'') (firstPage # replicate 6 tooManyRequests) =
       (Inr [meeting1, meeting2],
        [Request None, Wait 500,
         Request (Some (JStr ''c2'')), Wait 2000, Request (Some (JStr ''c2'')), Wait 4000,
         Request (Some (JStr ''c2'')), Wait 8000, Request (Some (JStr ''c2'')), Wait 16000,
         Request (Some (JStr ''c2'')), Wait 32000, Request (Some (JStr ''c2'')),
         MaxRetriesLogged])"
proof -
  have limited: "rateLimited (Some ''key'') tooManyRequests"
    by (rule rateLimited_429) (simp_all add: keyMissing_def respondsWith_def)
  then have all: "list_all (rateLimited (Some ''key'')) (replicate 6 tooManyRequests)"
    by (simp add: list_all_iff)
  have six: "fetchLoop (Some ''key'') (replicate 6 tooManyRequests @ [])
               \<lparr>allMeetings = [meeting1, meeting2], retryCount = 0,
                cursorParam = Some (JStr ''c2'')\<rparr> =
             (Inr [meeting1, meeting2],
              [Request (Some (JStr ''c2'')), Wait 2000, Request (Some (JStr ''c2'')), Wait 4000,
               Request (Some (JStr ''c2'')), Wait 8000, Request (Some (JStr ''c2'')), Wait 16000,
               Request (Some (JStr ''c2'')), Wait 32000, Request (Some (JStr ''c2'')),
               MaxRetriesLogged])"
    using six_rate_limits [OF _ all, of _ "[]"] by simp
  have "fetchAllMeetings (Some ''key'') ([firstPage] @ replicate 6 tooManyRequests @ []) =
          after [Request None, Wait 500]
            (fetchLoop (Some ''key'') (replicate 6 tooManyRequests @ [])
               \<lparr>allMeetings = [meeting1, meeting2], retryCount = 0,
                cursorParam = Some (JStr ''c2'')\<rparr>)"
    unfolding fetchAllMeetings_def by (rule fetchLoop_append [OF firstPage_iterations])
  then show ?thesis
    unfolding six by (simp add: after_def)
qed

lemma rate_limited_handler:
  "meetingsHandler Some (Some ''key'') (firstPage # replicate 6 tooManyRequests) cacheClear 1000 =
       (Inr \<lparr>code = 200, body = JObj [(''items'', JArr [meeting1, meeting2])]\<rparr>,
        \<lparr>meetingsCache = Some [meeting1, meeting2], cacheTimestamp = Some 1000\<rparr>,
        [Request None, Wait 500,
         Request (Some (JStr ''c2'')), Wait 2000, Request (Some (JStr ''c2'')), Wait 4000,
         Request (Some (JStr ''c2'')), Wait 8000, Request (Some (JStr ''c2'')), Wait 16000,
         Request (Some (JStr ''c2'')), Wait 32000, Request (Some (JStr ''c2'')),
         MaxRetriesLogged])"
  by (simp add: meetingsHandler_def cacheGet_def cacheHit_def cacheClear_def cacheSet_def
      rate_limited_drain serializeMeeting_examples Let_def)

theorem cache_holds_returned_drain_witness:
  "meetingsHandler Some (Some ''key'') (firstPage # replicate 6 tooManyRequests) cacheClear 1000 =
       (Inr \<lparr>code = 200, body = JObj [(''items'', JArr [meeting1, meeting2])]\<rparr>,
        \<lparr>meetingsCache = Some [meeting1, meeting2], cacheTimestamp = Some 1000\<rparr>,
        [Request None, Wait 500,
         Request (Some (JStr ''c2'')), Wait 2000, Request (Some (JStr ''c2'')), Wait 4000,
         Request (Some (JStr ''c2'')), Wait 8000, Request (Some (JStr ''c2'')), Wait 16000,
         Request (Some (JStr ''c2'')), Wait 32000, Request (Some (JStr ''c2'')),
         MaxRetriesLogged])
   \<and> (\<exists>pre a rest.
         firstPage # replicate 6 tooManyRequests = pre @ a # rest
         \<and> iterations (Some ''key'') pre initial \<noteq> None
         \<and> \<lparr>meetingsCache = Some [meeting1, meeting2], cacheTimestamp = Some 1000\<rparr> =
             cacheSet (filter (\<lambda>m. m \<noteq> JNull)
               (map (serializeMeeting Some)
                  (concat (map (pageItems (Some ''key'')) (pre @ [a]))))) 1000
         \<and> (carriesNoCursor (Some ''key'') a \<or> rateLimited (Some ''key'') a))"
proof -
  have changed: "\<lparr>meetingsCache = Some [meeting1, meeting2], cacheTimestamp = Some 1000\<rparr> \<noteq> cacheClear"
    by (simp add: cacheClear_def)
  show ?thesis
    using cache_holds_returned_drain [OF rate_limited_handler] rate_limited_handler changed
    by blast
qed

text \<open>
  C5 as stated fails: when the retries for the second page run out, the handler caches the
  first page alone, although that page carried a cursor to a further page.
\<close>

theorem partial_drain_is_cached:
  "carriesCursor (Some ''key'') firstPage
   \<and> meetingsHandler Some (Some ''key'') (firstPage # replicate 6 tooManyRequests) cacheClear 1000 =
       (Inr \<lparr>code = 200, body = JObj [(''items'', JArr [meeting1, meeting2])]\<rparr>,
        \<lparr>meetingsCache = Some [meeting1, meeting2], cacheTimestamp = Some 1000\<rparr>,
        [Request None, Wait 500,
         Request (Some (JStr ''c2'')), Wait 2000, Request (Some (JStr ''c2'')), Wait 4000,
         Request (Some (JStr ''c2'')), Wait 8000, Request (Some (JStr ''c2'')), Wait 16000,
         Request (Some (JStr ''c2'')), Wait 32000, Request (Some (JStr ''c2'')),
         MaxRetriesLogged])
   \<and> fst (fetchAllMeetings (Some ''key'') [firstPage, finalPage]) = Inr [meeting1, meeting2, meeting3]"
  by (simp add: carriesCursor_def firstPage_tryBody rate_limited_handler two_pages_drain)

end
